theory Spec2Isabelle
  imports Complex_Main
begin

section \<open>Data model (shared/schema.ts)\<close>

text \<open>
  JavaScript numbers are modelled as exact rationals: the arithmetic of the settlement
  engine is read as arithmetic on the numbers the doubles stand for. The decimal
  columns of the database hold text; a decimal text is modelled by the rational it
  denotes, so \<open>parseFloat\<close> of a stored decimal is the identity and is not written
  out. The only place where digits are lost is \<open>numToString\<close>, which prints with
  \<open>toFixed(8)\<close>; that rounding is modelled. The store returns what was written to it:
  the column scales the database engine may apply on top are outside the model.
\<close>

datatype trade_status = Pending | Completed

datatype outcome = Win | Loss | Draw

datatype trade_type = Buy | Sell

datatype direction = Up | Down

text \<open>A row of table \<open>trades\<close>.\<close>

record trade =
  trade_id :: string
  user_id :: string
  crypto_id :: string
  crypto_name :: string
  crypto_symbol :: string
  type_t :: trade_type
  direction_t :: direction
  amount :: rat
  initial_price :: rat
  delivery_time :: int
  status :: trade_status
  timestamp :: int
  email :: "string option"
  gain_percentage :: "rat option"
  final_amount :: "rat option"
  simulated_final_price :: "rat option"
  current_trade_value :: "rat option"
  current_gain_loss_percentage :: "rat option"
  outcome_t :: "outcome option"

text \<open>A row of table \<open>accounts\<close>; only the columns the settlement engine reads or writes.\<close>

record account =
  account_id :: string
  balance :: rat

text \<open>
  The database: tables \<open>accounts\<close> and \<open>trades\<close>, in the order a \<open>select\<close>
  without ordering returns their rows, and the ids of the rows of table
  \<open>cryptocurrencies\<close>, which \<open>trades.crypto_id\<close> references. The ids of table
  \<open>trades\<close> are its primary key. The width of the integer columns is outside the
  model, as the scale of the decimal ones is.
\<close>

record store =
  accounts :: "account list"
  trades :: "trade list"
  cryptocurrencies :: "string list"

section \<open>Number helpers (routes.ts)\<close>

text \<open>
  \<open>Number.prototype.toFixed(8)\<close>: the sign is split off, and the magnitude is rounded
  to the nearest multiple of \<open>10^-8\<close>, the larger one on a tie.
\<close>

definition toFixed8 :: "rat \<Rightarrow> rat" where
  "toFixed8 x =
     (if x < 0 then - (of_int \<lfloor>(- x) * 100000000 + 1 / 2\<rfloor> / 100000000)
      else of_int \<lfloor>x * 100000000 + 1 / 2\<rfloor> / 100000000)"

text \<open>\<open>numToString\<close>: \<open>null\<close> and \<open>undefined\<close> give \<open>null\<close>, a number is printed with \<open>toFixed(8)\<close>.\<close>

definition numToString :: "rat option \<Rightarrow> rat option" where
  "numToString val = (case val of None \<Rightarrow> None | Some num \<Rightarrow> Some (toFixed8 num))"

section \<open>Trade resolution (routes.ts, resolvePendingTrades)\<close>

text \<open>
  The function modelled is the exported \<open>resolvePendingTrades\<close>, the one the route
  \<open>POST /api/trades/complete\<close> calls, which settles each trade in a transaction of
  its own.
\<close>

definition WIN_PERCENTAGE_SIMULATION :: rat where
  "WIN_PERCENTAGE_SIMULATION = 85 / 100"

definition MIN_PROFIT_PERCENTAGE :: rat where
  "MIN_PROFIT_PERCENTAGE = 7 / 100"

definition MAX_PROFIT_PERCENTAGE :: rat where
  "MAX_PROFIT_PERCENTAGE = 19 / 100"

definition MIN_LOSS_PERCENTAGE :: rat where
  "MIN_LOSS_PERCENTAGE = 1 / 100"

definition MAX_LOSS_PERCENTAGE :: rat where
  "MAX_LOSS_PERCENTAGE = 5 / 100"

text \<open>
  The four local variables the simulation block leaves behind:
  \<open>outcome\<close>, \<open>finalAmount\<close>, \<open>gainPercentage\<close>, \<open>simulatedFinalPrice\<close>.
\<close>

record simulation =
  sim_outcome :: outcome
  sim_finalAmount :: rat
  sim_gainPercentage :: rat
  sim_simulatedFinalPrice :: rat

text \<open>
  The simulation block of one due trade. The four variables start at \<open>'draw'\<close>, 0, 0
  and the entry price, and the branch that is taken assigns all four. \<open>randomNumber\<close>
  is the first call of \<open>Math.random()\<close>, \<open>rnd2\<close> the second one (made in whichever
  branch is taken). The amount and the entry price of a row are never empty, so the
  fallbacks \<open>|| '0'\<close> do not apply.
\<close>

definition simulate :: "rat \<Rightarrow> rat \<Rightarrow> trade \<Rightarrow> simulation" where
  "simulate randomNumber rnd2 t =
     (let vars = \<lparr>sim_outcome = Draw, sim_finalAmount = 0, sim_gainPercentage = 0,
                  sim_simulatedFinalPrice = initial_price t\<rparr>;
          initialAmountInvested = amount t;
          initialPriceAtTrade = initial_price t
      in if randomNumber < WIN_PERCENTAGE_SIMULATION then
           (let randomProfitPercentage =
                  MIN_PROFIT_PERCENTAGE + rnd2 * (MAX_PROFIT_PERCENTAGE - MIN_PROFIT_PERCENTAGE);
                profitAmount = initialAmountInvested * randomProfitPercentage
            in vars\<lparr>sim_outcome := Win,
                    sim_gainPercentage := randomProfitPercentage * 100,
                    sim_finalAmount := initialAmountInvested + profitAmount,
                    sim_simulatedFinalPrice := initialPriceAtTrade * (1 + randomProfitPercentage)\<rparr>)
         else
           (let randomLossPercentage =
                  MIN_LOSS_PERCENTAGE + rnd2 * (MAX_LOSS_PERCENTAGE - MIN_LOSS_PERCENTAGE);
                lossAmount = initialAmountInvested * randomLossPercentage
            in vars\<lparr>sim_outcome := Loss,
                    sim_gainPercentage := - randomLossPercentage * 100,
                    sim_finalAmount := initialAmountInvested - lossAmount,
                    sim_simulatedFinalPrice := initialPriceAtTrade * (1 - randomLossPercentage)\<rparr>))"

text \<open>The \<open>set\<close> clause of the update of table \<open>trades\<close>, applied to one row.\<close>

definition set_resolved :: "simulation \<Rightarrow> trade \<Rightarrow> trade" where
  "set_resolved sim row =
     row\<lparr>status := Completed,
         outcome_t := Some (sim_outcome sim),
         gain_percentage := numToString (Some (sim_gainPercentage sim)),
         final_amount := numToString (Some (sim_finalAmount sim)),
         simulated_final_price := numToString (Some (sim_simulatedFinalPrice sim)),
         current_trade_value := numToString (Some (sim_finalAmount sim)),
         current_gain_loss_percentage := numToString (Some (sim_gainPercentage sim))\<rparr>"

text \<open>What the function prints with \<open>console.log\<close>, \<open>console.warn\<close> and \<open>console.error\<close>.\<close>

datatype log_event =
    ResolutionStarted
  | FoundPending nat
  | PendingTradeCheck string
  | PastDeliveryTime string
  | OutcomeLogged string outcome
  | BalanceUpdated string
  | AccountNotFoundWarning string string
  | TradeResolved string outcome
  | NotYetReady string
  | ErrorResolvingTrades
  | ResolutionFinished

datatype db_error = DbError

text \<open>
  What the function takes from outside: the values \<open>Math.random()\<close> returns, in the
  order of the calls, and which database statements throw: the initial query, and the
  transaction of a given trade. A transaction that throws is rolled back as a whole by
  the database; it is modelled as throwing when it begins.
\<close>

record env =
  random :: "nat \<Rightarrow> rat"
  select_fails :: bool
  tx_fails :: "string \<Rightarrow> bool"

text \<open>The state the function runs in: the database, the number of \<open>Math.random()\<close> calls made, the console.\<close>

record world =
  db :: store
  random_calls :: nat
  console :: "log_event list"

definition console_log :: "log_event \<Rightarrow> world \<Rightarrow> world" where
  "console_log e w = w\<lparr>console := console w @ [e]\<rparr>"

text \<open>\<open>select().from(accounts).where(eq(accounts.id, uid))\<close>, first row (also \<open>findFirst\<close>).\<close>

definition find_account :: "string \<Rightarrow> account list \<Rightarrow> account option" where
  "find_account uid accs = List.find (\<lambda>a. account_id a = uid) accs"

text \<open>\<open>update(accounts).set({balance: b}).where(eq(accounts.id, uid))\<close>.\<close>

definition update_balance :: "string \<Rightarrow> rat \<Rightarrow> account list \<Rightarrow> account list" where
  "update_balance uid b accs = map (\<lambda>a. if account_id a = uid then a\<lparr>balance := b\<rparr> else a) accs"

text \<open>\<open>update(trades).set({...}).where(eq(trades.id, tid))\<close>.\<close>

definition update_trade :: "string \<Rightarrow> simulation \<Rightarrow> trade list \<Rightarrow> trade list" where
  "update_trade tid sim ts = map (\<lambda>row. if trade_id row = tid then set_resolved sim row else row) ts"

text \<open>
  The body of the \<open>for\<close> loop: one transaction for the row \<open>t\<close> of the query result.
  The row is the one the initial query returned; nothing is read from table \<open>trades\<close>
  again. A number passed to \<open>numToString\<close> comes back as its \<open>toFixed(8)\<close> text.
  The result says whether the transaction threw.
\<close>

definition resolve_one :: "env \<Rightarrow> int \<Rightarrow> trade \<Rightarrow> world \<Rightarrow> db_error option \<times> world" where
  "resolve_one e nowMs t w =
     (if tx_fails e (trade_id t) then (Some DbError, w)
      else
        (let deliveryTimeMs = delivery_time t;
             w1 = console_log (PendingTradeCheck (trade_id t)) w
         in if nowMs \<ge> deliveryTimeMs then
              (let w2 = console_log (PastDeliveryTime (trade_id t)) w1;
                   randomNumber = random e (random_calls w2);
                   rnd2 = random e (random_calls w2 + 1);
                   sim = simulate randomNumber rnd2 t;
                   finalAmount = sim_finalAmount sim;
                   w3 = console_log (OutcomeLogged (trade_id t) (sim_outcome sim))
                          (w2\<lparr>random_calls := random_calls w2 + 2\<rparr>);
                   w4 = (case find_account (user_id t) (accounts (db w3)) of
                           Some userAccount \<Rightarrow>
                             (let currentBalance = balance userAccount;
                                  newBalance = currentBalance + finalAmount
                              in console_log (BalanceUpdated (user_id t))
                                   (w3\<lparr>db := (db w3)\<lparr>accounts :=
                                      update_balance (user_id t) (toFixed8 newBalance) (accounts (db w3))\<rparr>\<rparr>))
                         | None \<Rightarrow> console_log (AccountNotFoundWarning (user_id t) (trade_id t)) w3);
                   w5 = w4\<lparr>db := (db w4)\<lparr>trades := update_trade (trade_id t) sim (trades (db w4))\<rparr>\<rparr>
               in (None, console_log (TradeResolved (trade_id t) (sim_outcome sim)) w5))
            else (None, console_log (NotYetReady (trade_id t)) w1)))"

text \<open>The \<open>for\<close> loop: an exception leaves it.\<close>

fun resolve_loop :: "env \<Rightarrow> int \<Rightarrow> trade list \<Rightarrow> world \<Rightarrow> db_error option \<times> world" where
  "resolve_loop e nowMs [] w = (None, w)"
| "resolve_loop e nowMs (t # ts) w =
     (case resolve_one e nowMs t w of
        (Some err, w') \<Rightarrow> (Some err, w')
      | (None, w') \<Rightarrow> resolve_loop e nowMs ts w')"

text \<open>The initial query: \<open>status = 'pending'\<close> and \<open>delivery_time <= nowMs\<close>.\<close>

definition select_due :: "int \<Rightarrow> store \<Rightarrow> trade list" where
  "select_due nowMs s = filter (\<lambda>t. status t = Pending \<and> delivery_time t \<le> nowMs) (trades s)"

text \<open>
  \<open>resolvePendingTrades\<close>, with \<open>nowMs\<close> the value of \<open>Date.now()\<close>. The first
  component of the result is the exception that leaves the function, if any.
\<close>

definition resolvePendingTrades :: "env \<Rightarrow> int \<Rightarrow> world \<Rightarrow> db_error option \<times> world" where
  "resolvePendingTrades e nowMs w =
     (let w0 = console_log ResolutionStarted w;
          tried =
            (if select_fails e then (Some DbError, w0)
             else
               (let pendingTrades = select_due nowMs (db w0);
                    w1 = console_log (FoundPending (length pendingTrades)) w0
                in resolve_loop e nowMs pendingTrades w1));
          caught =
            (case fst tried of
               Some err \<Rightarrow> console_log ErrorResolvingTrades (snd tried)
             | None \<Rightarrow> snd tried)
      in (None, console_log ResolutionFinished caught))"

section \<open>Trade creation (routes.ts, POST /api/trades)\<close>

text \<open>
  The request body, with the fields of \<open>insertTradeSchema\<close>. An optional or nullable
  field that is absent or \<open>null\<close> is \<open>None\<close>.
\<close>

record trade_request =
  id_r :: string
  userId :: string
  cryptoId :: string
  cryptoName :: string
  cryptoSymbol :: string
  type_r :: trade_type
  direction_r :: direction
  amount_r :: rat
  entryPrice :: rat
  deliveryTime :: int
  status_r :: "trade_status option"
  timestamp_r :: int
  email_r :: "string option"
  gainPercentage :: "rat option"
  finalAmount :: "rat option"
  simulatedFinalPrice :: "rat option"
  currentTradeValue :: "rat option"
  currentGainLossPercentage :: "rat option"
  outcome_r :: "outcome option"

text \<open>
  \<open>insertTradeSchema.parse\<close>: the numeric constraints of the schema and the default
  of \<open>status\<close>; \<open>None\<close> is the \<open>ZodError\<close>. Identifiers and e-mail addresses are
  opaque strings here: their format checks (\<open>uuid()\<close>, \<open>email()\<close>) belong to the
  validation library.
\<close>

definition insertTradeSchema_parse :: "trade_request \<Rightarrow> trade_request option" where
  "insertTradeSchema_parse body =
     (if amount_r body \<ge> 0 \<and> entryPrice body \<ge> 0 \<and> deliveryTime body > 0 \<and> timestamp_r body > 0
      then Some (body\<lparr>status_r := Some (case status_r body of None \<Rightarrow> Pending | Some st \<Rightarrow> st)\<rparr>)
      else None)"

text \<open>The answers of the route: 201, 400 (validation), 404, 400 (balance), 500.\<close>

datatype response =
    TradeCreated
  | ValidationFailed
  | UserAccountNotFound
  | InsufficientBalance
  | FailedToCreate

text \<open>The row built from the validated request.\<close>

definition tradeToInsert :: "trade_request \<Rightarrow> trade" where
  "tradeToInsert validatedData =
     \<lparr>trade_id = id_r validatedData,
      user_id = userId validatedData,
      crypto_id = cryptoId validatedData,
      crypto_name = cryptoName validatedData,
      crypto_symbol = cryptoSymbol validatedData,
      type_t = type_r validatedData,
      direction_t = direction_r validatedData,
      amount = toFixed8 (amount_r validatedData),
      initial_price = toFixed8 (entryPrice validatedData),
      delivery_time = deliveryTime validatedData,
      status = (case status_r validatedData of Some st \<Rightarrow> st | None \<Rightarrow> Pending),
      timestamp = timestamp_r validatedData,
      email = email_r validatedData,
      gain_percentage = numToString (gainPercentage validatedData),
      final_amount = numToString (finalAmount validatedData),
      simulated_final_price = numToString (simulatedFinalPrice validatedData),
      current_trade_value = numToString (finalAmount validatedData),
      current_gain_loss_percentage = numToString (currentGainLossPercentage validatedData),
      outcome_t = outcome_r validatedData\<rparr>"

text \<open>
  The handler of \<open>POST /api/trades\<close>. The two writes are one transaction: the insert
  of a row whose \<open>id\<close> (the primary key) is already in the table, or whose
  \<open>crypto_id\<close> is not the id of a row of table \<open>cryptocurrencies\<close>, throws, the
  transaction is rolled back, and the handler answers 500.
\<close>

definition post_api_trades :: "trade_request \<Rightarrow> store \<Rightarrow> response \<times> store" where
  "post_api_trades body s =
     (case insertTradeSchema_parse body of
        None \<Rightarrow> (ValidationFailed, s)
      | Some validatedData \<Rightarrow>
          (case find_account (userId validatedData) (accounts s) of
             None \<Rightarrow> (UserAccountNotFound, s)
           | Some userAccount \<Rightarrow>
               (let tradeAmount = toFixed8 (amount_r validatedData)
                in if balance userAccount < tradeAmount then (InsufficientBalance, s)
                   else
                     (let newBalance = balance userAccount - tradeAmount;
                          row = tradeToInsert validatedData
                      in if trade_id row \<in> set (map trade_id (trades s))
                            \<or> crypto_id row \<notin> set (cryptocurrencies s)
                         then (FailedToCreate, s)
                         else (TradeCreated,
                               s\<lparr>accounts := update_balance (userId validatedData) (toFixed8 newBalance) (accounts s),
                                 trades := trades s @ [row]\<rparr>)))))"

text \<open>The simulation of the trade \<open>t\<close> with the two random values that are next in state \<open>w\<close>.\<close>

definition draw_sim :: "env \<Rightarrow> world \<Rightarrow> trade \<Rightarrow> simulation" where
  "draw_sim e w t = simulate (random e (random_calls w)) (random e (random_calls w + 1)) t"

text \<open>The number of trades a console reports as resolved.\<close>

fun is_resolved_event :: "log_event \<Rightarrow> bool" where
  "is_resolved_event (TradeResolved tid oc) = True"
| "is_resolved_event ev = False"

definition resolved_count :: "log_event list \<Rightarrow> nat" where
  "resolved_count evs = length (filter is_resolved_event evs)"


section \<open>Example data\<close>

text \<open>An account with balance 10000.00 and a pending trade of 1000 on it whose deadline is 100.\<close>

definition ex_account :: account where
  "ex_account = \<lparr>account_id = ''6f1c2a90-3b7e-4d15-9c0a-5e8d7f641b23'', balance = 10000\<rparr>"

definition ex_trade :: trade where
  "ex_trade =
     \<lparr>trade_id = ''a3d9e5c4-1f60-4b8a-8e27-0c94b6d1f7a5'',
      user_id = ''6f1c2a90-3b7e-4d15-9c0a-5e8d7f641b23'',
      crypto_id = ''bitcoin'', crypto_name = ''Bitcoin'', crypto_symbol = ''BTC'',
      type_t = Buy, direction_t = Up, amount = 1000, initial_price = 30000,
      delivery_time = 100, status = Pending, timestamp = 40, email = None,
      gain_percentage = None, final_amount = None, simulated_final_price = None,
      current_trade_value = None, current_gain_loss_percentage = None, outcome_t = None\<rparr>"

text \<open>Random values: the first call returns 0.5, every later call 0.25.\<close>

definition ex_env :: env where
  "ex_env = \<lparr>random = (\<lambda>n. if n = 0 then 1 / 2 else 1 / 4), select_fails = False, tx_fails = (\<lambda>i. False)\<rparr>"

definition ex_world :: world where
  "ex_world =
     \<lparr>db = \<lparr>accounts = [ex_account], trades = [ex_trade], cryptocurrencies = [''bitcoin'', ''ethereum'']\<rparr>,
      random_calls = 0, console = []\<rparr>"

text \<open>A second account with a due trade of its own, and a due trade whose account does not exist.\<close>

definition ex_account_b :: account where
  "ex_account_b = \<lparr>account_id = ''0b52d7e8-94c1-4f3a-a6d0-71e3c85f2a49'', balance = 500\<rparr>"

definition ex_trade_b :: trade where
  "ex_trade_b =
     \<lparr>trade_id = ''c81f4b27-6e03-4a59-b1d8-2f7a90e5c346'',
      user_id = ''0b52d7e8-94c1-4f3a-a6d0-71e3c85f2a49'',
      crypto_id = ''ethereum'', crypto_name = ''Ethereum'', crypto_symbol = ''ETH'',
      type_t = Sell, direction_t = Down, amount = 200, initial_price = 2000,
      delivery_time = 150, status = Pending, timestamp = 60, email = None,
      gain_percentage = None, final_amount = None, simulated_final_price = None,
      current_trade_value = None, current_gain_loss_percentage = None, outcome_t = None\<rparr>"

definition ex_trade_orphan :: trade where
  "ex_trade_orphan =
     ex_trade_b\<lparr>trade_id := ''e4a7c2d1-58b9-4c60-9f13-b06d2e9a7f58'',
                user_id := ''9d3e6f10-2a47-4b85-8c5e-3f1a7b4d0c62''\<rparr>"

text \<open>All three trades are due at time 200; the first one is the one without an account.\<close>

definition ex_world2 :: world where
  "ex_world2 =
     \<lparr>db = \<lparr>accounts = [ex_account, ex_account_b], trades = [ex_trade_orphan, ex_trade, ex_trade_b],
             cryptocurrencies = [''bitcoin'', ''ethereum'']\<rparr>,
      random_calls = 0, console = []\<rparr>"

text \<open>The database refuses the transaction of the first example trade.\<close>

definition ex_env_fail :: env where
  "ex_env_fail = ex_env\<lparr>tx_fails := (\<lambda>i. i = trade_id ex_trade)\<rparr>"

text \<open>
  The request that creates the first example trade, the database before it (the account
  alone), and random values whose second one is \<open>2^-20\<close>.
\<close>

definition ex_request :: trade_request where
  "ex_request =
     \<lparr>id_r = ''a3d9e5c4-1f60-4b8a-8e27-0c94b6d1f7a5'',
      userId = ''6f1c2a90-3b7e-4d15-9c0a-5e8d7f641b23'',
      cryptoId = ''bitcoin'', cryptoName = ''Bitcoin'', cryptoSymbol = ''BTC'',
      type_r = Buy, direction_r = Up, amount_r = 1000, entryPrice = 30000,
      deliveryTime = 100, status_r = None, timestamp_r = 40, email_r = None,
      gainPercentage = None, finalAmount = None, simulatedFinalPrice = None,
      currentTradeValue = None, currentGainLossPercentage = None, outcome_r = None\<rparr>"

definition ex_store :: store where
  "ex_store = \<lparr>accounts = [ex_account], trades = [], cryptocurrencies = [''bitcoin'', ''ethereum'']\<rparr>"


section \<open>Lemmas about the resolution step\<close>

lemma console_log_simps [simp]:
  "db (console_log ev w) = db w"
  "random_calls (console_log ev w) = random_calls w"
  "console (console_log ev w) = console w @ [ev]"
  by (simp_all add: console_log_def)


lemma resolve_one_fails:
  "tx_fails e (trade_id t) \<Longrightarrow> resolve_one e nowMs t w = (Some DbError, w)"
  by (simp add: resolve_one_def)

lemma resolve_one_not_ready:
  "\<not> tx_fails e (trade_id t) \<Longrightarrow> \<not> delivery_time t \<le> nowMs \<Longrightarrow>
   resolve_one e nowMs t w =
     (None, console_log (NotYetReady (trade_id t)) (console_log (PendingTradeCheck (trade_id t)) w))"
  by (simp add: resolve_one_def Let_def)

lemma resolve_one_due:
  assumes "\<not> tx_fails e (trade_id t)" "delivery_time t \<le> nowMs"
  shows "fst (resolve_one e nowMs t w) = None"
    and "trades (db (snd (resolve_one e nowMs t w))) =
           update_trade (trade_id t) (draw_sim e w t) (trades (db w))"
    and "accounts (db (snd (resolve_one e nowMs t w))) =
           (case find_account (user_id t) (accounts (db w)) of
              None \<Rightarrow> accounts (db w)
            | Some userAccount \<Rightarrow>
                update_balance (user_id t)
                  (toFixed8 (balance userAccount + sim_finalAmount (draw_sim e w t))) (accounts (db w)))"
    and "random_calls (snd (resolve_one e nowMs t w)) = random_calls w + 2"
    and "console (snd (resolve_one e nowMs t w)) =
           console w @
             [PendingTradeCheck (trade_id t), PastDeliveryTime (trade_id t),
              OutcomeLogged (trade_id t) (sim_outcome (draw_sim e w t)),
              (case find_account (user_id t) (accounts (db w)) of
                 None \<Rightarrow> AccountNotFoundWarning (user_id t) (trade_id t)
               | Some userAccount \<Rightarrow> BalanceUpdated (user_id t)),
              TradeResolved (trade_id t) (sim_outcome (draw_sim e w t))]"
  using assms
  by (simp_all add: resolve_one_def draw_sim_def Let_def split: option.split)








lemma resolve_one_trades:
  "trades (db (snd (resolve_one e nowMs t w))) = trades (db w)
   \<or> trades (db (snd (resolve_one e nowMs t w))) = update_trade (trade_id t) (draw_sim e w t) (trades (db w))"
proof (cases "\<not> tx_fails e (trade_id t) \<and> delivery_time t \<le> nowMs")
  case True
  then show ?thesis using resolve_one_due(2) by blast
next
  case False
  then show ?thesis
    by (cases "tx_fails e (trade_id t)") (simp_all add: resolve_one_fails resolve_one_not_ready)
qed

lemma list_all2_update_trade:
  assumes "\<And>row. R row row" and "\<And>row. trade_id row = tid \<Longrightarrow> R row (set_resolved sim row)"
  shows "list_all2 R ts (update_trade tid sim ts)"
  unfolding update_trade_def list_all2_map2
  by (rule list_all2_refl) (simp add: assms)

lemma resolve_one_rel:
  assumes "\<And>row. R row row"
    and "\<And>row r u. trade_id row = trade_id t \<Longrightarrow> R row (set_resolved (simulate r u t) row)"
  shows "list_all2 R (trades (db w)) (trades (db (snd (resolve_one e nowMs t w))))"
  using resolve_one_trades [of e nowMs t w]
proof
  assume "trades (db (snd (resolve_one e nowMs t w))) = trades (db w)"
  then show ?thesis by (simp add: list_all2_refl assms(1))
next
  assume "trades (db (snd (resolve_one e nowMs t w))) =
            update_trade (trade_id t) (draw_sim e w t) (trades (db w))"
  then show ?thesis by (simp add: list_all2_update_trade assms draw_sim_def)
qed

lemma resolve_loop_rel:
  assumes refl: "\<And>row. R row row"
    and trans: "\<And>a b c. R a b \<Longrightarrow> R b c \<Longrightarrow> R a c"
    and step: "\<And>t row r u. t \<in> set ts \<Longrightarrow> trade_id row = trade_id t \<Longrightarrow>
                 R row (set_resolved (simulate r u t) row)"
  shows "list_all2 R (trades (db w)) (trades (db (snd (resolve_loop e nowMs ts w))))"
  using step
proof (induction ts arbitrary: w)
  case Nil
  show ?case by (simp add: list_all2_refl refl)
next
  case (Cons t ts)
  obtain r w' where one: "resolve_one e nowMs t w = (r, w')" by (cases "resolve_one e nowMs t w")
  have "list_all2 R (trades (db w)) (trades (db (snd (resolve_one e nowMs t w))))"
  proof (rule resolve_one_rel)
    show "\<And>row. R row row" by (rule refl)
    show "\<And>row r u. trade_id row = trade_id t \<Longrightarrow> R row (set_resolved (simulate r u t) row)"
      by (rule Cons.prems [of t]) simp_all
  qed
  then have first: "list_all2 R (trades (db w)) (trades (db w'))"
    using one by simp
  show ?case
  proof (cases r)
    case None
    have "list_all2 R (trades (db w')) (trades (db (snd (resolve_loop e nowMs ts w'))))"
      by (rule Cons.IH) (rule Cons.prems, simp_all)
    with first have "list_all2 R (trades (db w)) (trades (db (snd (resolve_loop e nowMs ts w'))))"
      using trans by (rule list_all2_trans [rotated])
    then show ?thesis using one None by simp
  next
    case (Some err)
    then show ?thesis using one first by simp
  qed
qed


lemma set_resolved_simps [simp]:
  "trade_id (set_resolved sim row) = trade_id row"
  "status (set_resolved sim row) = Completed"
  "outcome_t (set_resolved sim row) = Some (sim_outcome sim)"
  by (simp_all add: set_resolved_def)

lemma sim_outcome_win_or_loss:
  "sim_outcome (simulate randomNumber rnd2 t) = Win \<or> sim_outcome (simulate randomNumber rnd2 t) = Loss"
  by (simp add: simulate_def Let_def)

lemma resolvePendingTrades_snd:
  "snd (resolvePendingTrades e nowMs w) =
     (if select_fails e
      then console_log ResolutionFinished (console_log ErrorResolvingTrades (console_log ResolutionStarted w))
      else (case resolve_loop e nowMs (select_due nowMs (db w))
                   (console_log (FoundPending (length (select_due nowMs (db w)))) (console_log ResolutionStarted w)) of
              (Some err, w') \<Rightarrow> console_log ResolutionFinished (console_log ErrorResolvingTrades w')
            | (None, w') \<Rightarrow> console_log ResolutionFinished w'))"
  by (simp add: resolvePendingTrades_def Let_def split: prod.split option.split)

lemma resolvePendingTrades_db:
  "db (snd (resolvePendingTrades e nowMs w)) =
     (if select_fails e then db w
      else db (snd (resolve_loop e nowMs (select_due nowMs (db w))
                   (console_log (FoundPending (length (select_due nowMs (db w)))) (console_log ResolutionStarted w)))))"
  by (simp add: resolvePendingTrades_snd split: prod.split option.split)

lemma resolvePendingTrades_rel:
  assumes refl: "\<And>row. R row row"
    and trans: "\<And>a b c. R a b \<Longrightarrow> R b c \<Longrightarrow> R a c"
    and step: "\<And>t row r u. t \<in> set (select_due nowMs (db w)) \<Longrightarrow> trade_id row = trade_id t \<Longrightarrow>
                 R row (set_resolved (simulate r u t) row)"
  shows "list_all2 R (trades (db w)) (trades (db (snd (resolvePendingTrades e nowMs w))))"
proof (cases "select_fails e")
  case True
  then show ?thesis by (simp add: resolvePendingTrades_db list_all2_refl refl)
next
  case False
  let ?w1 = "console_log (FoundPending (length (select_due nowMs (db w)))) (console_log ResolutionStarted w)"
  have "list_all2 R (trades (db ?w1)) (trades (db (snd (resolve_loop e nowMs (select_due nowMs (db w)) ?w1))))"
    using refl trans step by (rule resolve_loop_rel)
  then show ?thesis using False by (simp add: resolvePendingTrades_db)
qed

lemma distinct_ids_eq:
  "distinct (map trade_id ts) \<Longrightarrow> x \<in> set ts \<Longrightarrow> y \<in> set ts \<Longrightarrow> trade_id x = trade_id y \<Longrightarrow> x = y"
  by (meson distinct_map inj_on_eq_iff)

lemma completed_not_selected:
  assumes "distinct (map trade_id (trades s))" "x \<in> set (trades s)"
    and "\<not> (status x = Pending \<and> delivery_time x \<le> nowMs)"
    and "t \<in> set (select_due nowMs s)"
  shows "trade_id x \<noteq> trade_id t"
proof
  assume eq: "trade_id x = trade_id t"
  have t: "t \<in> set (trades s)" "status t = Pending \<and> delivery_time t \<le> nowMs"
    using assms(4) by (simp_all add: select_due_def)
  then have "x = t" using distinct_ids_eq [OF assms(1) assms(2) t(1) eq] by simp
  with t assms(3) show False by simp
qed

lemma resolved_count_append [simp]:
  "resolved_count (xs @ ys) = resolved_count xs + resolved_count ys"
  by (simp add: resolved_count_def)









lemma resolve_loop_append:
  "resolve_loop e nowMs (xs @ ys) w =
     (case resolve_loop e nowMs xs w of
        (Some err, w') \<Rightarrow> (Some err, w')
      | (None, w') \<Rightarrow> resolve_loop e nowMs ys w')"
  by (induction xs arbitrary: w) (simp_all split: prod.split option.split)

lemma resolve_loop_prefix_no_fault:
  assumes "\<forall>x\<in>set xs. \<not> tx_fails e (trade_id x)"
  shows "fst (resolve_loop e nowMs xs w) = None"
  using assms
proof (induction xs arbitrary: w)
  case Nil
  show ?case by simp
next
  case (Cons x xs)
  have "fst (resolve_one e nowMs x w) = None"
    using Cons.prems by (simp add: resolve_one_def Let_def)
  then obtain w' where "resolve_one e nowMs x w = (None, w')"
    by (cases "resolve_one e nowMs x w") simp
  then show ?case using Cons by simp
qed

lemma resolve_loop_stops:
  assumes "\<forall>x\<in>set xs. \<not> tx_fails e (trade_id x)" "tx_fails e (trade_id t)"
  shows "resolve_loop e nowMs (xs @ t # ys) w = (Some DbError, snd (resolve_loop e nowMs xs w))"
proof -
  obtain w' where "resolve_loop e nowMs xs w = (None, w')"
    using resolve_loop_prefix_no_fault [OF assms(1), of nowMs w]
    by (cases "resolve_loop e nowMs xs w") simp
  then show ?thesis
    by (simp add: resolve_loop_append resolve_one_fails [OF assms(2)])
qed

section \<open>Lemmas about rounding and about accounts\<close>














section \<open>Lemmas about trade creation\<close>

lemma parse_Some:
  "insertTradeSchema_parse body = Some v \<Longrightarrow>
   v = body\<lparr>status_r := Some (case status_r body of None \<Rightarrow> Pending | Some st \<Rightarrow> st)\<rparr>
   \<and> 0 \<le> amount_r body \<and> 0 \<le> entryPrice body \<and> 0 < deliveryTime body \<and> 0 < timestamp_r body"
  by (auto simp add: insertTradeSchema_parse_def split: if_splits)




section \<open>The claims\<close>






text \<open>
  Claim C3, as amended. For every request that passes validation: if the wager as the
  handler reads it back from \<open>numToString\<close>, that is rounded to 8 fractional digits, is
  greater than the balance of the account, the handler answers insufficient balance and
  the database is as before; if no account has the request's user id, it answers account
  not found and the database is as before.
\<close>

theorem C3_create_rejections:
  "(insertTradeSchema_parse body = Some v \<and> find_account (userId body) (accounts s) = Some a
      \<and> balance a < toFixed8 (amount_r body)
    \<longrightarrow> post_api_trades body s = (InsufficientBalance, s))
   \<and> (insertTradeSchema_parse body = Some v \<and> find_account (userId body) (accounts s) = None
    \<longrightarrow> post_api_trades body s = (UserAccountNotFound, s))"
proof (intro conjI impI)
  assume h: "insertTradeSchema_parse body = Some v \<and> find_account (userId body) (accounts s) = Some a
      \<and> balance a < toFixed8 (amount_r body)"
  then have parse: "insertTradeSchema_parse body = Some v" by simp
  have v: "userId v = userId body" "amount_r v = amount_r body"
    using parse_Some [OF parse] by (cases body, simp)+
  show "post_api_trades body s = (InsufficientBalance, s)"
    using h by (simp add: post_api_trades_def v Let_def)
next
  assume h: "insertTradeSchema_parse body = Some v \<and> find_account (userId body) (accounts s) = None"
  then have parse: "insertTradeSchema_parse body = Some v" by simp
  have v: "userId v = userId body"
    using parse_Some [OF parse] by (cases body, simp)
  show "post_api_trades body s = (UserAccountNotFound, s)"
    using h by (simp add: post_api_trades_def v)
qed

theorem C3_create_rejections_witness:
  "(insertTradeSchema_parse (ex_request\<lparr>amount_r := 10001\<rparr>) =
        Some (ex_request\<lparr>amount_r := 10001, status_r := Some Pending\<rparr>)
      \<and> find_account (userId (ex_request\<lparr>amount_r := 10001\<rparr>)) (accounts ex_store) = Some ex_account
      \<and> balance ex_account < toFixed8 (amount_r (ex_request\<lparr>amount_r := 10001\<rparr>)))
   \<and> (insertTradeSchema_parse (ex_request\<lparr>amount_r := 10001\<rparr>) =
        Some (ex_request\<lparr>amount_r := 10001, status_r := Some Pending\<rparr>)
      \<and> find_account (userId (ex_request\<lparr>amount_r := 10001\<rparr>)) (accounts (ex_store\<lparr>accounts := []\<rparr>)) = None)
   \<and> post_api_trades (ex_request\<lparr>amount_r := 10001\<rparr>) ex_store = (InsufficientBalance, ex_store)
   \<and> post_api_trades (ex_request\<lparr>amount_r := 10001\<rparr>) (ex_store\<lparr>accounts := []\<rparr>) =
        (UserAccountNotFound, ex_store\<lparr>accounts := []\<rparr>)"
proof -
  have h1: "insertTradeSchema_parse (ex_request\<lparr>amount_r := 10001\<rparr>) =
        Some (ex_request\<lparr>amount_r := 10001, status_r := Some Pending\<rparr>)
      \<and> find_account (userId (ex_request\<lparr>amount_r := 10001\<rparr>)) (accounts ex_store) = Some ex_account
      \<and> balance ex_account < toFixed8 (amount_r (ex_request\<lparr>amount_r := 10001\<rparr>))"
    by code_simp
  have h2: "insertTradeSchema_parse (ex_request\<lparr>amount_r := 10001\<rparr>) =
        Some (ex_request\<lparr>amount_r := 10001, status_r := Some Pending\<rparr>)
      \<and> find_account (userId (ex_request\<lparr>amount_r := 10001\<rparr>)) (accounts (ex_store\<lparr>accounts := []\<rparr>)) = None"
    by code_simp
  note c1 = mp [OF conjunct1 [OF C3_create_rejections
                  [of "ex_request\<lparr>amount_r := 10001\<rparr>" _ ex_store ex_account]] h1]
  note c2 = mp [OF conjunct2 [OF C3_create_rejections
                  [of "ex_request\<lparr>amount_r := 10001\<rparr>" _ "ex_store\<lparr>accounts := []\<rparr>"]] h2]
  show ?thesis using h1 h2 c1 c2 by blast
qed

text \<open>
  Claim C3 as stated fails: a wager of 10000.000000001 is greater than the balance
  10000, and the request is accepted; the comparison is made with the rounded
  wager 10000.00000000.
\<close>

theorem C3_counterexample:
  "balance ex_account < amount_r (ex_request\<lparr>amount_r := 10000 + 1 / 1000000000\<rparr>)
   \<and> find_account (userId (ex_request\<lparr>amount_r := 10000 + 1 / 1000000000\<rparr>)) (accounts ex_store) =
        Some ex_account
   \<and> fst (post_api_trades (ex_request\<lparr>amount_r := 10000 + 1 / 1000000000\<rparr>) ex_store) = TradeCreated
   \<and> map balance (accounts (snd (post_api_trades (ex_request\<lparr>amount_r := 10000 + 1 / 1000000000\<rparr>) ex_store))) = [0]
   \<and> map amount (trades (snd (post_api_trades (ex_request\<lparr>amount_r := 10000 + 1 / 1000000000\<rparr>) ex_store))) = [10000]"
  by code_simp



text \<open>
  Claim C5, as amended. The function only ever writes status completed: under any
  settlement step, also one that acts on an outdated row, a completed row stays
  completed. A run settles the rows its initial query returned as pending and due and
  no others: trade ids being unique, a row that is completed when the run starts is left
  exactly as it is, and a row that is pending after the run was not touched. So runs that
  follow one another settle a trade at most once. The step itself does not read the
  status of the trade again.
\<close>

theorem C5_status_only_forward:
  assumes ids: "distinct (map trade_id (trades (db w)))"
  shows "list_all2 (\<lambda>old new. trade_id new = trade_id old
                      \<and> (status old = Completed \<longrightarrow> new = old)
                      \<and> (status new = Pending \<longrightarrow> new = old))
           (trades (db w)) (trades (db (snd (resolvePendingTrades e nowMs w))))
       \<and> (\<forall>t w'. list_all2 (\<lambda>old new. status old = Completed \<longrightarrow> status new = Completed)
                   (trades (db w')) (trades (db (snd (resolve_one e nowMs t w')))))"
proof
  let ?S = "trade_id ` set (select_due nowMs (db w))"
  let ?R = "\<lambda>old new. trade_id new = trade_id old \<and> (trade_id old \<notin> ?S \<longrightarrow> new = old)
                      \<and> (status new = Pending \<longrightarrow> new = old)"
  have rel: "list_all2 ?R (trades (db w)) (trades (db (snd (resolvePendingTrades e nowMs w))))"
  proof (rule resolvePendingTrades_rel)
    fix a b c :: trade
    assume "?R a b" "?R b c"
    then show "?R a c" by metis
  next
    fix t row :: trade and r u :: rat
    assume "t \<in> set (select_due nowMs (db w))" "trade_id row = trade_id t"
    then show "?R row (set_resolved (simulate r u t) row)" by simp
  qed simp
  show "list_all2 (\<lambda>old new. trade_id new = trade_id old
                      \<and> (status old = Completed \<longrightarrow> new = old)
                      \<and> (status new = Pending \<longrightarrow> new = old))
           (trades (db w)) (trades (db (snd (resolvePendingTrades e nowMs w))))"
    using rel
  proof (rule list.rel_mono_strong)
    fix old new :: trade
    assume old: "old \<in> set (trades (db w))" and R: "?R old new"
    have "trade_id old \<notin> ?S" if c: "status old = Completed"
    proof
      assume "trade_id old \<in> ?S"
      then obtain t where t: "t \<in> set (select_due nowMs (db w))" "trade_id old = trade_id t"
        by (elim imageE)
      have "\<not> (status old = Pending \<and> delivery_time old \<le> nowMs)" using c by simp
      from completed_not_selected [OF ids old this t(1)] t(2) show False by simp
    qed
    with R show "trade_id new = trade_id old \<and> (status old = Completed \<longrightarrow> new = old)
                      \<and> (status new = Pending \<longrightarrow> new = old)" by blast
  qed
next
  show "\<forall>t w'. list_all2 (\<lambda>old new. status old = Completed \<longrightarrow> status new = Completed)
                   (trades (db w')) (trades (db (snd (resolve_one e nowMs t w'))))"
    by (intro allI resolve_one_rel) simp_all
qed

theorem C5_status_only_forward_witness:
  "distinct (map trade_id (trades (db ex_world2)))
   \<and> list_all2 (\<lambda>old new. trade_id new = trade_id old
                      \<and> (status old = Completed \<longrightarrow> new = old)
                      \<and> (status new = Pending \<longrightarrow> new = old))
        (trades (db ex_world2)) (trades (db (snd (resolvePendingTrades ex_env_fail 200 ex_world2))))"
proof -
  have h: "distinct (map trade_id (trades (db ex_world2)))" by code_simp
  show ?thesis
    using C5_status_only_forward [OF h, of ex_env_fail 200] h by simp
qed

text \<open>
  Claim C5 as stated fails: the step does not skip a trade that is no longer pending.
  Two runs both read the due trade in their initial query; the loop of the first one
  settles it and credits 1100, and the step of the second one, given the row it read
  before, settles the completed trade again and credits another 1100.
\<close>

theorem C5_counterexample:
  "select_due 200 (db ex_world) = [ex_trade]
   \<and> map status (trades (db (snd (resolve_loop ex_env 200 [ex_trade] ex_world)))) = [Completed]
   \<and> map balance (accounts (db (snd (resolve_loop ex_env 200 [ex_trade] ex_world)))) = [11100]
   \<and> map balance (accounts (db (snd (resolve_one ex_env 200 ex_trade
          (snd (resolve_loop ex_env 200 [ex_trade] ex_world)))))) = [12200]"
  by code_simp




text \<open>
  Claim C7, as amended. \<open>resolvePendingTrades\<close> never throws. A missing owning account
  is not a failure: the trade is completed without a credit, a warning is printed, and the
  loop goes on. An exception raised by the transaction of one due trade is caught by the
  single \<open>try\<close>/\<open>catch\<close> around the loop and logged, and ends the loop: the run is
  the run over the trades before the failing one, followed by the error message; the due
  trades after the failing one are not processed in that run.
\<close>

theorem C7_failure_ends_sweep:
  "fst (resolvePendingTrades e nowMs w) = None
   \<and> (\<not> tx_fails e (trade_id tm) \<and> delivery_time tm \<le> nowMs
        \<and> find_account (user_id tm) (accounts (db wm)) = None
      \<longrightarrow> fst (resolve_one e nowMs tm wm) = None
          \<and> accounts (db (snd (resolve_one e nowMs tm wm))) = accounts (db wm)
          \<and> trades (db (snd (resolve_one e nowMs tm wm))) =
              update_trade (trade_id tm) (draw_sim e wm tm) (trades (db wm))
          \<and> AccountNotFoundWarning (user_id tm) (trade_id tm) \<in> set (console (snd (resolve_one e nowMs tm wm))))
   \<and> (\<not> select_fails e \<and> select_due nowMs (db w) = xs @ t # ys
        \<and> (\<forall>x\<in>set xs. \<not> tx_fails e (trade_id x)) \<and> tx_fails e (trade_id t)
      \<longrightarrow> snd (resolvePendingTrades e nowMs w) =
            console_log ResolutionFinished (console_log ErrorResolvingTrades
              (snd (resolve_loop e nowMs xs
                 (console_log (FoundPending (length (xs @ t # ys))) (console_log ResolutionStarted w))))))"
proof (intro conjI impI)
  show "fst (resolvePendingTrades e nowMs w) = None"
    by (simp add: resolvePendingTrades_def Let_def)
next
  assume h: "\<not> tx_fails e (trade_id tm) \<and> delivery_time tm \<le> nowMs
        \<and> find_account (user_id tm) (accounts (db wm)) = None"
  then have ok: "\<not> tx_fails e (trade_id tm)" "delivery_time tm \<le> nowMs"
    and none: "find_account (user_id tm) (accounts (db wm)) = None" by simp_all
  show "fst (resolve_one e nowMs tm wm) = None" by (rule resolve_one_due(1) [OF ok])
  show "accounts (db (snd (resolve_one e nowMs tm wm))) = accounts (db wm)"
    by (simp add: resolve_one_due(3) [OF ok] none)
  show "trades (db (snd (resolve_one e nowMs tm wm))) =
              update_trade (trade_id tm) (draw_sim e wm tm) (trades (db wm))"
    by (rule resolve_one_due(2) [OF ok])
  show "AccountNotFoundWarning (user_id tm) (trade_id tm) \<in> set (console (snd (resolve_one e nowMs tm wm)))"
    by (simp add: resolve_one_due(5) [OF ok] none)
next
  assume h: "\<not> select_fails e \<and> select_due nowMs (db w) = xs @ t # ys
        \<and> (\<forall>x\<in>set xs. \<not> tx_fails e (trade_id x)) \<and> tx_fails e (trade_id t)"
  then have a: "\<not> select_fails e" and b: "select_due nowMs (db w) = xs @ t # ys"
    and c: "\<forall>x\<in>set xs. \<not> tx_fails e (trade_id x)" and d: "tx_fails e (trade_id t)" by simp_all
  show "snd (resolvePendingTrades e nowMs w) =
            console_log ResolutionFinished (console_log ErrorResolvingTrades
              (snd (resolve_loop e nowMs xs
                 (console_log (FoundPending (length (xs @ t # ys))) (console_log ResolutionStarted w)))))"
    using a by (simp add: resolvePendingTrades_snd b resolve_loop_stops [OF c d])
qed

theorem C7_failure_ends_sweep_witness:
  "\<not> tx_fails ex_env_fail (trade_id ex_trade_orphan) \<and> delivery_time ex_trade_orphan \<le> 200
   \<and> find_account (user_id ex_trade_orphan) (accounts (db ex_world2)) = None
   \<and> \<not> select_fails ex_env_fail
   \<and> select_due 200 (db ex_world2) = [ex_trade_orphan] @ ex_trade # [ex_trade_b]
   \<and> tx_fails ex_env_fail (trade_id ex_trade)
   \<and> fst (resolve_one ex_env_fail 200 ex_trade_orphan ex_world2) = None
   \<and> accounts (db (snd (resolve_one ex_env_fail 200 ex_trade_orphan ex_world2))) = accounts (db ex_world2)
   \<and> snd (resolvePendingTrades ex_env_fail 200 ex_world2) =
        console_log ResolutionFinished (console_log ErrorResolvingTrades
          (snd (resolve_loop ex_env_fail 200 [ex_trade_orphan]
             (console_log (FoundPending (length ([ex_trade_orphan] @ ex_trade # [ex_trade_b])))
                (console_log ResolutionStarted ex_world2)))))"
proof -
  have h1: "\<not> tx_fails ex_env_fail (trade_id ex_trade_orphan) \<and> delivery_time ex_trade_orphan \<le> 200
        \<and> find_account (user_id ex_trade_orphan) (accounts (db ex_world2)) = None"
    by code_simp
  have h2: "\<not> select_fails ex_env_fail \<and> select_due 200 (db ex_world2) = [ex_trade_orphan] @ ex_trade # [ex_trade_b]
        \<and> (\<forall>x\<in>set [ex_trade_orphan]. \<not> tx_fails ex_env_fail (trade_id x)) \<and> tx_fails ex_env_fail (trade_id ex_trade)"
    by code_simp
  note T = C7_failure_ends_sweep [of ex_env_fail 200 ex_world2 ex_trade_orphan ex_world2
                                     "[ex_trade_orphan]" ex_trade "[ex_trade_b]"]
  note c2 = mp [OF conjunct1 [OF conjunct2 [OF T]] h1]
  note c3 = mp [OF conjunct2 [OF conjunct2 [OF T]] h2]
  show ?thesis
    using h1 h2 conjunct1 [OF c2] conjunct1 [OF conjunct2 [OF c2]] c3 by blast
qed

text \<open>
  Claim C7 as stated fails: with three due trades and a database that refuses the
  transaction of the second one, the run completes the first trade, prints the error, and
  returns; the third trade, whose own transaction would not fail, is still pending.
\<close>

theorem C7_counterexample:
  "select_due 200 (db ex_world2) = [ex_trade_orphan, ex_trade, ex_trade_b]
   \<and> tx_fails ex_env_fail (trade_id ex_trade)
   \<and> \<not> tx_fails ex_env_fail (trade_id ex_trade_b)
   \<and> map status (trades (db (snd (resolvePendingTrades ex_env_fail 200 ex_world2)))) =
        [Completed, Pending, Pending]
   \<and> ErrorResolvingTrades \<in> set (console (snd (resolvePendingTrades ex_env_fail 200 ex_world2)))"
  by code_simp



text \<open>
  Claim C9. The direction of a trade has no influence on its settlement. For two trades
  that agree in every field except the direction, and the same two random values, the
  simulation returns the same outcome, gain percentage, final amount and simulated final
  price; the whole transaction of the one and of the other, run from the same state,
  end in the same state; and the update of a row leaves its direction as it was.
\<close>

theorem C9_direction_noninterference:
  assumes "t2 = t1\<lparr>direction_t := d\<rparr>"
  shows "simulate randomNumber rnd2 t2 = simulate randomNumber rnd2 t1
       \<and> resolve_one e nowMs t2 w = resolve_one e nowMs t1 w
       \<and> direction_t (set_resolved sim row) = direction_t row"
proof -
  have sim: "\<And>a b. simulate a b (t1\<lparr>direction_t := d\<rparr>) = simulate a b t1"
    by (simp add: simulate_def)
  show ?thesis
    unfolding assms
    by (simp add: sim resolve_one_def Let_def set_resolved_def cong: option.case_cong)
qed

theorem C9_direction_noninterference_witness:
  "ex_trade\<lparr>direction_t := Down\<rparr> = ex_trade\<lparr>direction_t := Down\<rparr>
   \<and> direction_t (ex_trade\<lparr>direction_t := Down\<rparr>) \<noteq> direction_t ex_trade
   \<and> simulate (1 / 2) (1 / 4) (ex_trade\<lparr>direction_t := Down\<rparr>) = simulate (1 / 2) (1 / 4) ex_trade
   \<and> resolve_one ex_env 200 (ex_trade\<lparr>direction_t := Down\<rparr>) ex_world = resolve_one ex_env 200 ex_trade ex_world"
proof -
  have h: "ex_trade\<lparr>direction_t := Down\<rparr> = ex_trade\<lparr>direction_t := Down\<rparr>" by simp
  have ne: "direction_t (ex_trade\<lparr>direction_t := Down\<rparr>) \<noteq> direction_t ex_trade"
    by (simp add: ex_trade_def)
  show ?thesis
    using C9_direction_noninterference [OF h, of "1 / 2" "1 / 4" ex_env 200 ex_world] h ne by simp
qed

text \<open>
  Claim C10. The simulation never leaves the default outcome in place: its outcome is a
  win or a loss. Across a whole run of \<open>resolvePendingTrades\<close>, every row of table
  \<open>trades\<close> is either left as it was or written with outcome win or loss; no row is
  written with outcome draw or with no outcome.
\<close>

theorem C10_never_draw:
  "(sim_outcome (simulate randomNumber rnd2 t) = Win \<or> sim_outcome (simulate randomNumber rnd2 t) = Loss)
   \<and> list_all2 (\<lambda>old new. new = old \<or> outcome_t new = Some Win \<or> outcome_t new = Some Loss)
        (trades (db w)) (trades (db (snd (resolvePendingTrades e nowMs w))))"
proof
  show "sim_outcome (simulate randomNumber rnd2 t) = Win \<or> sim_outcome (simulate randomNumber rnd2 t) = Loss"
    by (rule sim_outcome_win_or_loss)
next
  show "list_all2 (\<lambda>old new. new = old \<or> outcome_t new = Some Win \<or> outcome_t new = Some Loss)
        (trades (db w)) (trades (db (snd (resolvePendingTrades e nowMs w))))"
  proof (rule resolvePendingTrades_rel)
    fix t' row :: trade and r u :: rat
    show "set_resolved (simulate r u t') row = row \<or> outcome_t (set_resolved (simulate r u t') row) = Some Win
          \<or> outcome_t (set_resolved (simulate r u t') row) = Some Loss"
      using sim_outcome_win_or_loss [of r u t'] by simp
  qed blast+
qed

end
